theory Spec2Isabelle
  imports Main "HOL-Library.AList"
begin

section \<open>Failures and effectful evaluation\<close>

text \<open>
  The module under verification is \<^verbatim>\<open>torch_geometric_temporal/nn/convolutional/mstgcn.py\<close>:
  the classes \<^verbatim>\<open>MSTGCNBlock\<close> and \<^verbatim>\<open>MSTGCN\<close>. Every exception the Python can raise is a
  value of \<open>error\<close>: the interpreter's own (an unbound name, a missing attribute, a
  failed unpacking, a list index out of range, a division by zero, a call of the wrong
  kind) and whatever the tensor engine raises (\<open>EngineError\<close>: shape mismatches and
  failures of the spectral estimation).
\<close>

datatype error =
    NameError string
  | AttributeError string
  | TypeError string
  | ValueError string
  | IndexError
  | ZeroDivisionError
  | EngineError string

text \<open>
  A computation runs in a state \<open>'s\<close> that stands for everything the tensor engine
  owns and may change behind the caller's back: the parameter tensors of the layers, the
  random number generator, caches. It returns a failure or a value, and the state it
  leaves. An exception stops the computation where it is raised: \<open>and_then\<close> runs its
  continuation only on a value.
\<close>

type_synonym ('s, 'a) run = "'s \<Rightarrow> (error + 'a) \<times> 's"

definition succeed :: "'a \<Rightarrow> ('s, 'a) run" where
  "succeed v = (\<lambda>s. (Inr v, s))"

definition throw :: "error \<Rightarrow> ('s, 'a) run" where
  "throw e = (\<lambda>s. (Inl e, s))"

definition lift :: "error + 'a \<Rightarrow> ('s, 'a) run" where
  "lift r = (\<lambda>s. (r, s))"

definition and_then :: "('s, 'a) run \<Rightarrow> ('a \<Rightarrow> ('s, 'b) run) \<Rightarrow> ('s, 'b) run" where
  "and_then m f = (\<lambda>s. case m s of (Inl e, s') \<Rightarrow> (Inl e, s') | (Inr v, s') \<Rightarrow> f v s')"

section \<open>Python objects\<close>

text \<open>
  Python is dynamically typed: a parameter of \<^verbatim>\<open>forward\<close> can be bound to any object.
  \<open>'v\<close> is the type of the values the tensor engine owns (tensors, the graph data
  object, the eigenvalue estimate). A layer of the libraries is the configuration its
  constructor received, in the order of the constructor's parameters:
  \<^item> \<open>ChebConvO in_channels out_channels K\<close> for \<^verbatim>\<open>ChebConv(in_channels, out_channels, K, normalization=None)\<close>;
  \<^item> \<open>Conv2dO in_channels out_channels kernel_size stride padding\<close> for \<^verbatim>\<open>nn.Conv2d\<close>, the three
    pairs being (height, width);
  \<^item> \<open>LayerNormO normalized_shape\<close> for \<^verbatim>\<open>nn.LayerNorm\<close>.
  The parameter tensors of a layer are part of the engine's state, not of the object.
  An instance of a class of this module is its class name and its attribute store, in
  the order of assignment.
\<close>

datatype 'v pyobj =
    NoneO
  | IntO int
  | EngineO 'v
  | ListO "'v pyobj list"
  | GlobalO string
  | ChebConvO int int int
  | Conv2dO int int "int \<times> int" "int \<times> int" "int \<times> int"
  | LayerNormO int
  | ModuleListO "'v pyobj list"
  | InstanceO string "(string \<times> 'v pyobj) list"

definition py_setattr :: "'v pyobj \<Rightarrow> string \<Rightarrow> 'v pyobj \<Rightarrow> 'v pyobj" where
  "py_setattr obj name v =
     (case obj of InstanceO c attrs \<Rightarrow> InstanceO c (AList.update name v attrs) | _ \<Rightarrow> obj)"

definition py_getattr :: "'v pyobj \<Rightarrow> string \<Rightarrow> error + 'v pyobj" where
  "py_getattr obj name =
     (case obj of
        InstanceO c attrs \<Rightarrow>
          (case map_of attrs name of Some v \<Rightarrow> Inr v | None \<Rightarrow> Inl (AttributeError name))
      | _ \<Rightarrow> Inl (AttributeError name))"

definition as_int :: "'v pyobj \<Rightarrow> error + int" where
  "as_int obj = (case obj of IntO i \<Rightarrow> Inr i | _ \<Rightarrow> Inl (TypeError ''an integer is required''))"

definition isinstance_list :: "'v pyobj \<Rightarrow> bool" where
  "isinstance_list obj = (case obj of ListO _ \<Rightarrow> True | _ \<Rightarrow> False)"

definition getitem :: "'v pyobj \<Rightarrow> int \<Rightarrow> error + 'v pyobj" where
  "getitem obj i =
     (case obj of
        ListO items \<Rightarrow>
          if 0 \<le> i \<and> i < int (length items) then Inr (items ! nat i)
          else if i < 0 \<and> - int (length items) \<le> i
          then Inr (items ! nat (int (length items) + i))
          else Inl IndexError
      | _ \<Rightarrow> Inl (TypeError ''object is not subscriptable''))"

definition py_iter :: "'v pyobj \<Rightarrow> error + 'v pyobj list" where
  "py_iter obj =
     (case obj of ModuleListO ms \<Rightarrow> Inr ms | ListO xs \<Rightarrow> Inr xs
      | _ \<Rightarrow> Inl (TypeError ''object is not iterable''))"

definition py_range :: "int \<Rightarrow> int list" where
  "py_range n = [0..n - 1]"

definition unpack4 :: "int list \<Rightarrow> error + (int \<times> int \<times> int \<times> int)" where
  "unpack4 xs =
     (case xs of
        [a, b, c, d] \<Rightarrow> Inr (a, b, c, d)
      | _ \<Rightarrow> Inl (ValueError ''wrong number of values to unpack (expected 4)''))"

section \<open>Name resolution\<close>

text \<open>
  The names bound at module level, by the three \<^verbatim>\<open>import\<close> statements, the three
  \<^verbatim>\<open>from ... import\<close> statements and the two \<^verbatim>\<open>class\<close> statements of the file, and the
  names of Python's built-in functions and types (the exception classes and constants of
  the built-in namespace are left out: no claim reads them). A name a function body
  reads is looked up in the frame of the call (the parameters), then at module level,
  then among the built-ins; a name bound nowhere raises \<^verbatim>\<open>NameError\<close>.
\<close>

definition module_globals :: "string list" where
  "module_globals =
     [''torch'', ''nn'', ''F'', ''Data'', ''ChebConv'', ''LaplacianLambdaMax'',
      ''MSTGCNBlock'', ''MSTGCN'']"

definition builtins :: "string list" where
  "builtins =
     [''abs'', ''aiter'', ''all'', ''anext'', ''any'', ''ascii'', ''bin'', ''bool'',
      ''breakpoint'', ''bytearray'', ''bytes'', ''callable'', ''chr'', ''classmethod'',
      ''compile'', ''complex'', ''delattr'', ''dict'', ''dir'', ''divmod'', ''enumerate'',
      ''eval'', ''exec'', ''filter'', ''float'', ''format'', ''frozenset'', ''getattr'',
      ''globals'', ''hasattr'', ''hash'', ''help'', ''hex'', ''id'', ''input'', ''int'',
      ''isinstance'', ''issubclass'', ''iter'', ''len'', ''list'', ''locals'', ''map'',
      ''max'', ''memoryview'', ''min'', ''next'', ''object'', ''oct'', ''open'', ''ord'',
      ''pow'', ''print'', ''property'', ''range'', ''repr'', ''reversed'', ''round'',
      ''set'', ''setattr'', ''slice'', ''sorted'', ''staticmethod'', ''str'', ''sum'',
      ''super'', ''tuple'', ''type'', ''vars'', ''zip'', ''__import__'']"

definition load_name :: "(string \<times> 'v pyobj) list \<Rightarrow> string \<Rightarrow> error + 'v pyobj" where
  "load_name frame name =
     (case map_of frame name of
        Some v \<Rightarrow> Inr v
      | None \<Rightarrow>
          if name \<in> set module_globals \<or> name \<in> set builtins then Inr (GlobalO name)
          else Inl (NameError name))"

section \<open>The tensor engine\<close>

text \<open>
  Everything the module calls in \<^verbatim>\<open>torch\<close> and \<^verbatim>\<open>torch_geometric\<close> is an operation of
  an engine the model takes as a parameter: nothing is assumed about what an operation
  returns, whether it fails, or what it does to the engine's state. The fields, with the
  Python they stand for (\<^verbatim>\<open>t\<close> a tensor):
  \<^item> \<open>tensor_shape t\<close>: \<^verbatim>\<open>t.shape\<close>;
  \<^item> \<open>permute dims t\<close>: \<^verbatim>\<open>t.permute(*dims)\<close>; \<open>reshape dims t\<close>: \<^verbatim>\<open>t.reshape(*dims)\<close>;
  \<^item> \<open>index_last i t\<close>: \<^verbatim>\<open>t[:, :, :, i]\<close>;
  \<^item> \<open>unsqueeze dim t\<close>: \<^verbatim>\<open>torch.unsqueeze(t, dim)\<close>; \<open>cat ts dim\<close>: \<^verbatim>\<open>torch.cat(ts, dim=dim)\<close>;
  \<^item> \<open>relu t\<close>: \<^verbatim>\<open>F.relu(t)\<close>; \<open>tensor_add a b\<close>: \<^verbatim>\<open>a + b\<close>;
  \<^item> \<open>graph_data e n\<close>: \<^verbatim>\<open>Data(edge_index=e, edge_attr=None, num_nodes=n)\<close>;
  \<^item> \<open>laplacian_lambda_max d\<close>: \<^verbatim>\<open>LaplacianLambdaMax()(d).lambda_max\<close>;
  \<^item> \<open>cheb_conv i o k x e l\<close>: the forward pass of \<^verbatim>\<open>ChebConv(i, o, k, normalization=None)\<close> called
    as \<^verbatim>\<open>(x=x, edge_index=e, lambda_max=l)\<close>;
  \<^item> \<open>conv2d i o kernel_size stride padding t\<close> and \<open>layer_norm n t\<close>: the forward passes of
    \<^verbatim>\<open>nn.Conv2d\<close> and \<^verbatim>\<open>nn.LayerNorm\<close> on \<^verbatim>\<open>t\<close>.
\<close>

record ('v, 's) engine =
  tensor_shape :: "'v pyobj \<Rightarrow> ('s, int list) run"
  permute :: "int list \<Rightarrow> 'v pyobj \<Rightarrow> ('s, 'v pyobj) run"
  reshape :: "int list \<Rightarrow> 'v pyobj \<Rightarrow> ('s, 'v pyobj) run"
  index_last :: "int \<Rightarrow> 'v pyobj \<Rightarrow> ('s, 'v pyobj) run"
  unsqueeze :: "int \<Rightarrow> 'v pyobj \<Rightarrow> ('s, 'v pyobj) run"
  cat :: "'v pyobj list \<Rightarrow> int \<Rightarrow> ('s, 'v pyobj) run"
  relu :: "'v pyobj \<Rightarrow> ('s, 'v pyobj) run"
  tensor_add :: "'v pyobj \<Rightarrow> 'v pyobj \<Rightarrow> ('s, 'v pyobj) run"
  graph_data :: "'v pyobj \<Rightarrow> int \<Rightarrow> ('s, 'v pyobj) run"
  laplacian_lambda_max :: "'v pyobj \<Rightarrow> ('s, 'v pyobj) run"
  cheb_conv :: "int \<Rightarrow> int \<Rightarrow> int \<Rightarrow> 'v pyobj \<Rightarrow> 'v pyobj \<Rightarrow> 'v pyobj \<Rightarrow> ('s, 'v pyobj) run"
  conv2d :: "int \<Rightarrow> int \<Rightarrow> int \<times> int \<Rightarrow> int \<times> int \<Rightarrow> int \<times> int \<Rightarrow> 'v pyobj \<Rightarrow> ('s, 'v pyobj) run"
  layer_norm :: "int \<Rightarrow> 'v pyobj \<Rightarrow> ('s, 'v pyobj) run"

text \<open>
  Calling an object. \<open>call_graph_conv\<close> is the call with the keywords \<^verbatim>\<open>x\<close>,
  \<^verbatim>\<open>edge_index\<close> and \<^verbatim>\<open>lambda_max\<close>, which only a \<^verbatim>\<open>ChebConv\<close> accepts; \<open>call_layer\<close>
  is the call with one positional argument.
\<close>

definition call_graph_conv ::
  "('v, 's) engine \<Rightarrow> 'v pyobj \<Rightarrow> 'v pyobj \<Rightarrow> 'v pyobj \<Rightarrow> 'v pyobj \<Rightarrow> ('s, 'v pyobj) run" where
  "call_graph_conv L f x e l =
     (case f of
        ChebConvO i out k \<Rightarrow> cheb_conv L i out k x e l
      | Conv2dO _ _ _ _ _ \<Rightarrow> throw (TypeError ''forward() got an unexpected keyword argument'')
      | LayerNormO _ \<Rightarrow> throw (TypeError ''forward() got an unexpected keyword argument'')
      | _ \<Rightarrow> throw (TypeError ''object is not callable''))"

definition call_layer :: "('v, 's) engine \<Rightarrow> 'v pyobj \<Rightarrow> 'v pyobj \<Rightarrow> ('s, 'v pyobj) run" where
  "call_layer L f t =
     (case f of
        Conv2dO i out kernel_size stride padding \<Rightarrow>
          conv2d L i out kernel_size stride padding t
      | LayerNormO n \<Rightarrow> layer_norm L n t
      | ChebConvO _ _ _ \<Rightarrow> throw (TypeError ''forward() missing a required positional argument'')
      | _ \<Rightarrow> throw (TypeError ''object is not callable''))"

section \<open>MSTGCNBlock\<close>

text \<open>
  \<^verbatim>\<open>MSTGCNBlock.__init__\<close> (lines 22-30): five assignments to attributes of \<^verbatim>\<open>self\<close>, every
  name with a leading underscore. \<^verbatim>\<open>nn.Conv2d\<close> is called without \<^verbatim>\<open>padding\<close> for the
  residual convolution, so its padding is the default \<open>(0, 0)\<close>. The closing
  \<^verbatim>\<open>_reset_parameters()\<close> draws new values for the parameter tensors and changes no
  attribute; the values are not part of the object here, they belong to the state of the
  engine a forward pass runs in.
\<close>

definition MSTGCNBlock_init :: "int \<Rightarrow> int \<Rightarrow> int \<Rightarrow> int \<Rightarrow> int \<Rightarrow> 'v pyobj" where
  "MSTGCNBlock_init in_channels K nb_chev_filter nb_time_filter time_strides =
     (let self = InstanceO ''MSTGCNBlock'' [];
          self = py_setattr self ''_cheb_conv'' (ChebConvO in_channels nb_chev_filter K);
          self = py_setattr self ''_time_conv''
                   (Conv2dO nb_chev_filter nb_time_filter (1, 3) (1, time_strides) (0, 1));
          self = py_setattr self ''_residual_conv''
                   (Conv2dO in_channels nb_time_filter (1, 1) (1, time_strides) (0, 0));
          self = py_setattr self ''_layer_norm'' (LayerNormO nb_time_filter);
          self = py_setattr self ''_nb_time_filter'' (IntO nb_time_filter)
      in self)"

text \<open>
  \<^verbatim>\<open>MSTGCNBlock.forward(self, X, edge_index)\<close> (lines 39-79). A name the body binds
  before it reads it (\<^verbatim>\<open>batch_size\<close>, \<^verbatim>\<open>data\<close>, \<^verbatim>\<open>lambda_max\<close>, \<^verbatim>\<open>tmp\<close>, ...) is a bound
  variable of the model, and so are the parameters \<^verbatim>\<open>self\<close> and \<^verbatim>\<open>edge_index\<close>. The body
  never reads its parameter \<^verbatim>\<open>X\<close>: it reads \<^verbatim>\<open>x\<close>, which no parameter and no assignment of
  the function binds, so the interpreter resolves it by \<open>load_name\<close> when line 53 runs.
  The later reads of \<^verbatim>\<open>x\<close> (lines 57, 67 and 75) see the same binding. The attributes of
  \<^verbatim>\<open>self\<close> are read by the names the body writes: \<^verbatim>\<open>cheb_conv\<close>, \<^verbatim>\<open>nb_time_filter\<close>,
  \<^verbatim>\<open>time_conv\<close>, \<^verbatim>\<open>residual_conv\<close>, \<^verbatim>\<open>layer_norm\<close>. Python evaluates the callee of a call
  before its arguments, and the model keeps that order.

  Lines 55-61, the branch for a connectivity that is not a list:
\<close>

definition constant_edges ::
  "('v, 's) engine \<Rightarrow> 'v pyobj \<Rightarrow> 'v pyobj \<Rightarrow> 'v pyobj \<Rightarrow> int \<Rightarrow> int \<Rightarrow> int \<Rightarrow> int
     \<Rightarrow> ('s, 'v pyobj) run" where
  "constant_edges L self x edge_index batch_size num_of_vertices in_channels num_of_timesteps =
     and_then (graph_data L edge_index num_of_vertices) (\<lambda>data.
     and_then (laplacian_lambda_max L data) (\<lambda>lambda_max.
     and_then (permute L [2, 0, 1, 3] x) (\<lambda>permuted.
     and_then (reshape L [num_of_vertices, in_channels, num_of_timesteps * batch_size] permuted)
       (\<lambda>reshaped.
     and_then (permute L [2, 0, 1] reshaped) (\<lambda>tmp.
     and_then (lift (py_getattr self ''cheb_conv'')) (\<lambda>conv.
     and_then (call_graph_conv L conv tmp edge_index lambda_max) (\<lambda>filtered.
     and_then (relu L filtered) (\<lambda>output.
     and_then (permute L [1, 2, 0] output) (\<lambda>permuted_output.
     and_then (lift (py_getattr self ''nb_time_filter'')) (\<lambda>attr.
     and_then (lift (as_int attr)) (\<lambda>nb_time_filter.
     and_then (reshape L [num_of_vertices, nb_time_filter, batch_size, num_of_timesteps]
                 permuted_output) (\<lambda>reshaped_output.
     permute L [2, 0, 1, 3] reshaped_output))))))))))))"

text \<open>Lines 63-69, the branch for a list: one graph convolution per time step.\<close>

fun per_step ::
  "('v, 's) engine \<Rightarrow> 'v pyobj \<Rightarrow> 'v pyobj \<Rightarrow> 'v pyobj \<Rightarrow> int \<Rightarrow> int list \<Rightarrow> 'v pyobj list
     \<Rightarrow> ('s, 'v pyobj list) run" where
  "per_step L self x edge_index num_of_vertices [] outputs = succeed outputs"
| "per_step L self x edge_index num_of_vertices (time_step # rest) outputs =
     and_then (lift (getitem edge_index time_step)) (\<lambda>edges.
     and_then (graph_data L edges num_of_vertices) (\<lambda>data.
     and_then (laplacian_lambda_max L data) (\<lambda>lambda_max.
     and_then (lift (py_getattr self ''cheb_conv'')) (\<lambda>conv.
     and_then (index_last L time_step x) (\<lambda>slice.
     and_then (lift (getitem edge_index time_step)) (\<lambda>edges'.
     and_then (call_graph_conv L conv slice edges' lambda_max) (\<lambda>filtered.
     and_then (unsqueeze L (- 1) filtered) (\<lambda>out.
     per_step L self x edge_index num_of_vertices rest (outputs @ [out])))))))))"

definition varying_edges ::
  "('v, 's) engine \<Rightarrow> 'v pyobj \<Rightarrow> 'v pyobj \<Rightarrow> 'v pyobj \<Rightarrow> int \<Rightarrow> int \<Rightarrow> ('s, 'v pyobj) run" where
  "varying_edges L self x edge_index num_of_vertices num_of_timesteps =
     and_then (per_step L self x edge_index num_of_vertices (py_range num_of_timesteps) [])
       (\<lambda>outputs.
     and_then (cat L outputs (- 1)) (\<lambda>joined.
     relu L joined))"

text \<open>The whole body: line 53, the branch of line 54, then lines 72-79.\<close>

definition MSTGCNBlock_forward ::
  "('v, 's) engine \<Rightarrow> 'v pyobj \<Rightarrow> 'v pyobj \<Rightarrow> 'v pyobj \<Rightarrow> ('s, 'v pyobj) run" where
  "MSTGCNBlock_forward L self X edge_index =
     (let frame = [(''self'', self), (''X'', X), (''edge_index'', edge_index)] in
      and_then (lift (load_name frame ''x'')) (\<lambda>x.
      and_then (tensor_shape L x) (\<lambda>shape.
      and_then (lift (unpack4 shape))
        (\<lambda>(batch_size, num_of_vertices, in_channels, num_of_timesteps).
      and_then
        (if \<not> isinstance_list edge_index
         then constant_edges L self x edge_index
                batch_size num_of_vertices in_channels num_of_timesteps
         else varying_edges L self x edge_index num_of_vertices num_of_timesteps)
        (\<lambda>spatial_gcn.
      and_then (lift (py_getattr self ''time_conv'')) (\<lambda>time_conv.
      and_then (permute L [0, 2, 1, 3] spatial_gcn) (\<lambda>spatial_permuted.
      and_then (call_layer L time_conv spatial_permuted) (\<lambda>time_conv_output.
      and_then (lift (py_getattr self ''residual_conv'')) (\<lambda>residual_conv.
      and_then (permute L [0, 2, 1, 3] x) (\<lambda>x_permuted.
      and_then (call_layer L residual_conv x_permuted) (\<lambda>x_residual.
      and_then (lift (py_getattr self ''layer_norm'')) (\<lambda>norm.
      and_then (tensor_add L x_residual time_conv_output) (\<lambda>summed.
      and_then (relu L summed) (\<lambda>rectified.
      and_then (permute L [0, 3, 2, 1] rectified) (\<lambda>rectified_permuted.
      and_then (call_layer L norm rectified_permuted) (\<lambda>normalized.
      permute L [0, 2, 3, 1] normalized))))))))))))))))"

section \<open>MSTGCN\<close>

text \<open>
  \<^verbatim>\<open>int(len_input/time_strides)\<close> (line 106): the quotient of two Python integers,
  truncated towards zero; a zero divisor raises. Python computes the quotient as a
  double first; the model takes the exact quotient, which the truncation of the double
  equals as long as both integers are below \<open>2 ^ 53\<close> in absolute value. Beyond
  that bound the double is rounded (and a quotient too large for a double raises), which
  the model does not follow: every statement below about the value of this quotient
  carries the bound as a hypothesis.
\<close>

definition int_truediv :: "int \<Rightarrow> int \<Rightarrow> error + int" where
  "int_truediv a b =
     (if b = 0 then Inl ZeroDivisionError else Inr (sgn a * sgn b * (\<bar>a\<bar> div \<bar>b\<bar>)))"

definition module_list_extend :: "'v pyobj \<Rightarrow> 'v pyobj list \<Rightarrow> error + 'v pyobj" where
  "module_list_extend obj new =
     (case obj of ModuleListO ms \<Rightarrow> Inr (ModuleListO (ms @ new))
      | _ \<Rightarrow> Inl (AttributeError ''extend''))"

text \<open>
  \<^verbatim>\<open>MSTGCN.__init__\<close> (lines 98-108): the list of one block (line 102), extended in place
  by one block for every element of \<^verbatim>\<open>range(nb_block-1)\<close> (line 104), and the final
  convolution (line 106), whose stride and padding are the defaults \<open>(1, 1)\<close> and
  \<open>(0, 0)\<close>.
\<close>

definition MSTGCN_init ::
  "int \<Rightarrow> int \<Rightarrow> int \<Rightarrow> int \<Rightarrow> int \<Rightarrow> int \<Rightarrow> int \<Rightarrow> int \<Rightarrow> error + 'v pyobj" where
  "MSTGCN_init nb_block in_channels K nb_chev_filter nb_time_filter time_strides
       num_for_predict len_input =
     (let self = InstanceO ''MSTGCN'' [];
          self = py_setattr self ''_blocklist''
                   (ModuleListO
                      [MSTGCNBlock_init in_channels K nb_chev_filter nb_time_filter time_strides])
      in case py_getattr self ''_blocklist'' of
           Inl e \<Rightarrow> Inl e
         | Inr blocklist \<Rightarrow>
             (case module_list_extend blocklist
                     (map (\<lambda>_. MSTGCNBlock_init nb_time_filter K nb_chev_filter nb_time_filter 1)
                        (py_range (nb_block - 1))) of
                Inl e \<Rightarrow> Inl e
              | Inr extended \<Rightarrow>
                  (let self = py_setattr self ''_blocklist'' extended
                   in case int_truediv len_input time_strides of
                        Inl e \<Rightarrow> Inl e
                      | Inr depth \<Rightarrow>
                          Inr (py_setattr self ''_final_conv''
                                 (Conv2dO depth num_for_predict (1, nb_time_filter)
                                    (1, 1) (0, 0))))))"

text \<open>
  \<^verbatim>\<open>MSTGCN.forward(self, X, edge_index)\<close> (lines 120-136). The loop of lines 132-133
  calls every element of \<^verbatim>\<open>self._blocklist\<close>, which the constructor fills with instances
  of \<^verbatim>\<open>MSTGCNBlock\<close> only, so each call runs \<open>MSTGCNBlock_forward\<close>; there is no
  \<^verbatim>\<open>try\<close> statement in the module.
\<close>

fun run_blocks ::
  "('v, 's) engine \<Rightarrow> 'v pyobj list \<Rightarrow> 'v pyobj \<Rightarrow> 'v pyobj \<Rightarrow> ('s, 'v pyobj) run" where
  "run_blocks L [] X edge_index = succeed X"
| "run_blocks L (block # rest) X edge_index =
     and_then (MSTGCNBlock_forward L block X edge_index) (\<lambda>X'.
     run_blocks L rest X' edge_index)"

definition MSTGCN_forward ::
  "('v, 's) engine \<Rightarrow> 'v pyobj \<Rightarrow> 'v pyobj \<Rightarrow> 'v pyobj \<Rightarrow> ('s, 'v pyobj) run" where
  "MSTGCN_forward L self X edge_index =
     and_then (lift (py_getattr self ''_blocklist'')) (\<lambda>blocklist.
     and_then (lift (py_iter blocklist)) (\<lambda>blocks.
     and_then (run_blocks L blocks X edge_index) (\<lambda>X'.
     and_then (lift (py_getattr self ''_final_conv'')) (\<lambda>final_conv.
     and_then (permute L [0, 3, 1, 2] X') (\<lambda>permuted.
     and_then (call_layer L final_conv permuted) (\<lambda>fused.
     and_then (index_last L (- 1) fused) (\<lambda>last_step.
     permute L [0, 2, 1] last_step)))))))"

text \<open>
  The call \<^verbatim>\<open>block(X, edge_index)\<close> of line 133 is a call of whatever object the list
  holds. To state what the loop itself does with a failure of that call, here are lines
  132-135 once more with the call left open: \<open>call block X edge_index\<close> is any
  computation. \<^verbatim>\<open>MSTGCN.forward\<close> is the instance whose call is the forward pass of the
  block (lemma \<open>forward_is_instance\<close> below).
\<close>

fun run_blocks_with ::
  "('v pyobj \<Rightarrow> 'v pyobj \<Rightarrow> 'v pyobj \<Rightarrow> ('s, 'v pyobj) run)
     \<Rightarrow> 'v pyobj list \<Rightarrow> 'v pyobj \<Rightarrow> 'v pyobj \<Rightarrow> ('s, 'v pyobj) run" where
  "run_blocks_with call [] X edge_index = succeed X"
| "run_blocks_with call (block # rest) X edge_index =
     and_then (call block X edge_index) (\<lambda>X'.
     run_blocks_with call rest X' edge_index)"

definition MSTGCN_forward_with ::
  "('v pyobj \<Rightarrow> 'v pyobj \<Rightarrow> 'v pyobj \<Rightarrow> ('s, 'v pyobj) run)
     \<Rightarrow> ('v, 's) engine \<Rightarrow> 'v pyobj \<Rightarrow> 'v pyobj \<Rightarrow> 'v pyobj \<Rightarrow> ('s, 'v pyobj) run" where
  "MSTGCN_forward_with call L self X edge_index =
     and_then (lift (py_getattr self ''_blocklist'')) (\<lambda>blocklist.
     and_then (lift (py_iter blocklist)) (\<lambda>blocks.
     and_then (run_blocks_with call blocks X edge_index) (\<lambda>X'.
     and_then (lift (py_getattr self ''_final_conv'')) (\<lambda>final_conv.
     and_then (permute L [0, 3, 1, 2] X') (\<lambda>permuted.
     and_then (call_layer L final_conv permuted) (\<lambda>fused.
     and_then (index_last L (- 1) fused) (\<lambda>last_step.
     permute L [0, 2, 1] last_step)))))))"

text \<open>
  The first failure of the block chain, read off the calls one by one: the error of the
  first block whose call fails on the output of the blocks before it, with the state at
  that moment; \<open>None\<close> when every call returns.
\<close>

fun first_failure ::
  "('v pyobj \<Rightarrow> 'v pyobj \<Rightarrow> 'v pyobj \<Rightarrow> ('s, 'v pyobj) run)
     \<Rightarrow> 'v pyobj list \<Rightarrow> 'v pyobj \<Rightarrow> 'v pyobj \<Rightarrow> 's \<Rightarrow> (error \<times> 's) option" where
  "first_failure call [] X edge_index s = None"
| "first_failure call (block # rest) X edge_index s =
     (case call block X edge_index s of
        (Inl e, s') \<Rightarrow> Some (e, s')
      | (Inr X', s') \<Rightarrow> first_failure call rest X' edge_index s')"

section \<open>Time lengths fixed by the configuration\<close>

text \<open>
  The output size of a convolution along one axis, as the documentation of \<^verbatim>\<open>nn.Conv2d\<close>
  gives it for dilation 1: \<open>floor((n + 2 * padding - kernel_size) / stride) + 1\<close>.
  \<open>block_time_length\<close> is the time length a block's temporal convolution (the attribute
  \<^verbatim>\<open>_time_conv\<close>, whose width axis is time) emits for an input of time length \<open>T\<close>, and
  \<open>chain_time_length\<close> the length after a list of blocks.
\<close>

definition conv_out_size :: "int \<Rightarrow> int \<Rightarrow> int \<Rightarrow> int \<Rightarrow> int" where
  "conv_out_size n kernel_size stride padding = (n + 2 * padding - kernel_size) div stride + 1"

definition block_time_length :: "'v pyobj \<Rightarrow> int \<Rightarrow> error + int" where
  "block_time_length block T =
     (case py_getattr block ''_time_conv'' of
        Inl e \<Rightarrow> Inl e
      | Inr (Conv2dO i out kernel_size stride padding) \<Rightarrow>
          Inr (conv_out_size T (snd kernel_size) (snd stride) (snd padding))
      | Inr _ \<Rightarrow> Inl (TypeError ''not a convolution''))"

fun chain_time_length :: "'v pyobj list \<Rightarrow> int \<Rightarrow> error + int" where
  "chain_time_length [] T = Inr T"
| "chain_time_length (block # rest) T =
     (case block_time_length block T of Inl e \<Rightarrow> Inl e | Inr T' \<Rightarrow> chain_time_length rest T')"

definition blocks_of :: "'v pyobj \<Rightarrow> 'v pyobj list" where
  "blocks_of model =
     (case py_getattr model ''_blocklist'' of Inr (ModuleListO ms) \<Rightarrow> ms | _ \<Rightarrow> [])"

section \<open>An engine to run the model on\<close>

text \<open>
  The theorems below hold for every engine. To run the model on concrete inputs there
  is one engine that can be evaluated: a tensor is its shape, every operation computes
  the shape the documentation of the libraries gives for the result (and fails on
  shapes it does not accept), and the state is the number of operations the engine has
  been asked for so far.
\<close>

definition counted :: "error + 'a \<Rightarrow> (nat, 'a) run" where
  "counted r = (\<lambda>calls. (r, Suc calls))"

definition on_shape ::
  "(int list \<Rightarrow> error + int list) \<Rightarrow> int list pyobj \<Rightarrow> (nat, int list pyobj) run" where
  "on_shape f t =
     counted (case t of
                EngineO d \<Rightarrow> (case f d of Inl e \<Rightarrow> Inl e | Inr d' \<Rightarrow> Inr (EngineO d'))
              | _ \<Rightarrow> Inl (TypeError ''not a tensor''))"

definition axis :: "int \<Rightarrow> int \<Rightarrow> int" where
  "axis dim rank = (if dim < 0 then dim + rank else dim)"

definition permute_shape :: "int list \<Rightarrow> int list \<Rightarrow> error + int list" where
  "permute_shape dims d =
     (if sort dims = [0..int (length d) - 1] then Inr (map (\<lambda>i. d ! nat i) dims)
      else Inl (EngineError ''permute: the dimensions are not a permutation''))"

definition reshape_shape :: "int list \<Rightarrow> int list \<Rightarrow> error + int list" where
  "reshape_shape dims d =
     (if prod_list dims = prod_list d then Inr dims
      else Inl (EngineError ''reshape: the shape is invalid for the input size''))"

definition index_last_shape :: "int \<Rightarrow> int list \<Rightarrow> error + int list" where
  "index_last_shape i d =
     (if length d < 4 then Inl IndexError
      else if - (d ! 3) \<le> i \<and> i < d ! 3 then Inr (take 3 d @ drop 4 d)
      else Inl IndexError)"

definition unsqueeze_shape :: "int \<Rightarrow> int list \<Rightarrow> error + int list" where
  "unsqueeze_shape dim d =
     (let k = axis dim (int (length d) + 1)
      in if 0 \<le> k \<and> k \<le> int (length d) then Inr (take (nat k) d @ [1] @ drop (nat k) d)
         else Inl IndexError)"

definition off_axis :: "nat \<Rightarrow> int list \<Rightarrow> int list" where
  "off_axis k d = take k d @ drop (Suc k) d"

definition cat_shape :: "int list list \<Rightarrow> int \<Rightarrow> error + int list" where
  "cat_shape ds dim =
     (case ds of
        [] \<Rightarrow> Inl (EngineError ''cat: expected a non-empty list of tensors'')
      | d # rest \<Rightarrow>
          (let k = axis dim (int (length d))
           in if 0 \<le> k \<and> k < int (length d)
                 \<and> list_all (\<lambda>d'. length d' = length d \<and> off_axis (nat k) d' = off_axis (nat k) d) rest
              then Inr (d[nat k := sum_list (map (\<lambda>d'. d' ! nat k) ds)])
              else Inl (EngineError ''cat: the sizes of the tensors must match'')))"

fun broadcast :: "int list \<Rightarrow> int list \<Rightarrow> error + int list" where
  "broadcast [] ys = Inr ys"
| "broadcast xs [] = Inr xs"
| "broadcast (x # xs) (y # ys) =
     (if x = y \<or> y = 1 \<or> x = 1
      then (case broadcast xs ys of Inl e \<Rightarrow> Inl e | Inr zs \<Rightarrow> Inr (max x y # zs))
      else Inl (EngineError ''the sizes of the tensors must match''))"

definition add_shape :: "int list \<Rightarrow> int list \<Rightarrow> error + int list" where
  "add_shape a b = (case broadcast (rev a) (rev b) of Inl e \<Rightarrow> Inl e | Inr zs \<Rightarrow> Inr (rev zs))"

definition cheb_conv_shape :: "int \<Rightarrow> int \<Rightarrow> int list \<Rightarrow> error + int list" where
  "cheb_conv_shape i out d =
     (if d \<noteq> [] \<and> last d = i then Inr (butlast d @ [out])
      else Inl (EngineError ''ChebConv: the feature size does not match in_channels''))"

definition conv2d_shape ::
  "int \<Rightarrow> int \<Rightarrow> int \<times> int \<Rightarrow> int \<times> int \<Rightarrow> int \<times> int \<Rightarrow> int list \<Rightarrow> error + int list" where
  "conv2d_shape i out kernel_size stride padding d =
     (case d of
        [b, c, h, w] \<Rightarrow>
          if c = i \<and> 0 < fst stride \<and> 0 < snd stride
             \<and> fst kernel_size \<le> h + 2 * fst padding \<and> snd kernel_size \<le> w + 2 * snd padding
          then Inr [b, out,
                    conv_out_size h (fst kernel_size) (fst stride) (fst padding),
                    conv_out_size w (snd kernel_size) (snd stride) (snd padding)]
          else Inl (EngineError ''Conv2d: the input does not fit the layer'')
      | _ \<Rightarrow> Inl (EngineError ''Conv2d: expected a 4-dimensional input''))"

definition layer_norm_shape :: "int \<Rightarrow> int list \<Rightarrow> error + int list" where
  "layer_norm_shape n d =
     (if d \<noteq> [] \<and> last d = n then Inr d
      else Inl (EngineError ''LayerNorm: the last dimension does not match normalized_shape''))"

definition shapes_of :: "int list pyobj list \<Rightarrow> error + int list list" where
  "shapes_of ts =
     (if list_all (\<lambda>t. case t of EngineO _ \<Rightarrow> True | _ \<Rightarrow> False) ts
      then Inr (map (\<lambda>t. case t of EngineO d \<Rightarrow> d | _ \<Rightarrow> []) ts)
      else Inl (TypeError ''not a tensor''))"

definition shape_engine :: "(int list, nat) engine" where
  "shape_engine =
     \<lparr> tensor_shape = (\<lambda>t. counted (case t of EngineO d \<Rightarrow> Inr d
                                      | _ \<Rightarrow> Inl (AttributeError ''shape''))),
       permute = (\<lambda>dims. on_shape (permute_shape dims)),
       reshape = (\<lambda>dims. on_shape (reshape_shape dims)),
       index_last = (\<lambda>i. on_shape (index_last_shape i)),
       unsqueeze = (\<lambda>dim. on_shape (unsqueeze_shape dim)),
       cat = (\<lambda>ts dim. counted (case shapes_of ts of
                                   Inl e \<Rightarrow> Inl e
                                 | Inr ds \<Rightarrow> (case cat_shape ds dim of
                                                Inl e \<Rightarrow> Inl e
                                              | Inr d \<Rightarrow> Inr (EngineO d)))),
       relu = on_shape Inr,
       tensor_add = (\<lambda>a b. case a of EngineO d \<Rightarrow> on_shape (add_shape d) b
                            | _ \<Rightarrow> counted (Inl (TypeError ''not a tensor''))),
       graph_data = (\<lambda>e n. on_shape Inr e),
       laplacian_lambda_max = on_shape (\<lambda>d. Inr []),
       cheb_conv = (\<lambda>i out k x e l. on_shape (cheb_conv_shape i out) x),
       conv2d = (\<lambda>i out kernel_size stride padding.
                   on_shape (conv2d_shape i out kernel_size stride padding)),
       layer_norm = (\<lambda>n. on_shape (layer_norm_shape n)) \<rparr>"

definition final_conv_in_channels :: "'v pyobj \<Rightarrow> error + int" where
  "final_conv_in_channels model =
     (case py_getattr model ''_final_conv'' of
        Inl e \<Rightarrow> Inl e
      | Inr (Conv2dO i out kernel_size stride padding) \<Rightarrow> Inr i
      | Inr _ \<Rightarrow> Inl (AttributeError ''in_channels''))"

definition final_conv_kernel_size :: "'v pyobj \<Rightarrow> error + int \<times> int" where
  "final_conv_kernel_size model =
     (case py_getattr model ''_final_conv'' of
        Inl e \<Rightarrow> Inl e
      | Inr (Conv2dO i out kernel_size stride padding) \<Rightarrow> Inr kernel_size
      | Inr _ \<Rightarrow> Inl (AttributeError ''kernel_size''))"

text \<open>
  A block call that can return, to run the loop past its first block: it applies the
  temporal convolution the block holds (the attribute \<^verbatim>\<open>_time_conv\<close>) to its input and
  nothing else.
\<close>

definition temporal_conv_only ::
  "('v, 's) engine \<Rightarrow> 'v pyobj \<Rightarrow> 'v pyobj \<Rightarrow> 'v pyobj \<Rightarrow> ('s, 'v pyobj) run" where
  "temporal_conv_only L block X edge_index =
     and_then (lift (py_getattr block ''_time_conv'')) (\<lambda>conv. call_layer L conv X)"

section \<open>Name resolution in the block's forward pass\<close>

lemma and_then_throw: "and_then (lift (Inl e)) f s = (Inl e, s)"
  by (simp add: and_then_def lift_def)

lemma x_not_global: "''x'' \<notin> set module_globals" "''x'' \<notin> set builtins"
  by (simp_all add: module_globals_def builtins_def)

lemma load_x:
  "load_name [(''self'', self), (''X'', X), (''edge_index'', edge_index)] ''x''
     = Inl (NameError ''x'')"
  by (simp add: load_name_def x_not_global)

lemma load_X:
  "load_name [(''self'', self), (''X'', X), (''edge_index'', edge_index)] ''X'' = Inr X"
  by (simp add: load_name_def)

text \<open>
  Line 53 is the first statement of the body, and its first step is the read of
  \<^verbatim>\<open>x\<close>: the call fails there, in the state it was given.
\<close>

lemma block_forward_fails:
  "MSTGCNBlock_forward L self X edge_index s = (Inl (NameError ''x''), s)"
  unfolding MSTGCNBlock_forward_def Let_def load_x by (rule and_then_throw)

lemma block_attrs:
  "py_getattr (MSTGCNBlock_init i K c t st) ''_cheb_conv'' = Inr (ChebConvO i c K)"
  "py_getattr (MSTGCNBlock_init i K c t st) ''_time_conv''
     = Inr (Conv2dO c t (1, 3) (1, st) (0, 1))"
  "py_getattr (MSTGCNBlock_init i K c t st) ''_residual_conv''
     = Inr (Conv2dO i t (1, 1) (1, st) (0, 0))"
  "py_getattr (MSTGCNBlock_init i K c t st) ''_layer_norm'' = Inr (LayerNormO t)"
  "py_getattr (MSTGCNBlock_init i K c t st) ''_nb_time_filter'' = Inr (IntO t)"
  by (simp_all add: MSTGCNBlock_init_def py_getattr_def py_setattr_def)

lemma block_no_attrs:
  "py_getattr (MSTGCNBlock_init i K c t st) ''cheb_conv'' = Inl (AttributeError ''cheb_conv'')"
  "py_getattr (MSTGCNBlock_init i K c t st) ''time_conv'' = Inl (AttributeError ''time_conv'')"
  "py_getattr (MSTGCNBlock_init i K c t st) ''residual_conv''
     = Inl (AttributeError ''residual_conv'')"
  "py_getattr (MSTGCNBlock_init i K c t st) ''layer_norm'' = Inl (AttributeError ''layer_norm'')"
  "py_getattr (MSTGCNBlock_init i K c t st) ''nb_time_filter''
     = Inl (AttributeError ''nb_time_filter'')"
  by (simp_all add: MSTGCNBlock_init_def py_getattr_def py_setattr_def)

section \<open>What the constructor builds\<close>

lemma range_blocks: "map (\<lambda>_. b) (py_range n) = replicate (nat n) b"
  by (simp add: py_range_def map_replicate_const)

lemma init_result:
  "MSTGCN_init nb i K c t st p li =
     (if st = 0 then Inl ZeroDivisionError
      else Inr (InstanceO ''MSTGCN''
             [(''_blocklist'',
               ModuleListO (MSTGCNBlock_init i K c t st
                            # replicate (nat (nb - 1)) (MSTGCNBlock_init t K c t 1))),
              (''_final_conv'',
               Conv2dO (sgn li * sgn st * (\<bar>li\<bar> div \<bar>st\<bar>)) p (1, t) (1, 1) (0, 0))]))"
  by (simp add: MSTGCN_init_def py_getattr_def py_setattr_def module_list_extend_def
      range_blocks int_truediv_def)

lemma init_blocklist:
  "MSTGCN_init nb i K c t st p li = Inr model \<Longrightarrow>
   py_getattr model ''_blocklist'' =
     Inr (ModuleListO (MSTGCNBlock_init i K c t st
                       # replicate (nat (nb - 1)) (MSTGCNBlock_init t K c t 1)))"
  by (auto simp: init_result py_getattr_def split: if_splits)

lemma init_final_conv:
  "MSTGCN_init nb i K c t st p li = Inr model \<Longrightarrow>
   st \<noteq> 0 \<and> py_getattr model ''_final_conv'' =
     Inr (Conv2dO (sgn li * sgn st * (\<bar>li\<bar> div \<bar>st\<bar>)) p (1, t) (1, 1) (0, 0))"
  by (auto simp: init_result py_getattr_def split: if_splits)

lemma init_blocks_of:
  "MSTGCN_init nb i K c t st p li = Inr model \<Longrightarrow>
   blocks_of model =
     MSTGCNBlock_init i K c t st # replicate (nat (nb - 1)) (MSTGCNBlock_init t K c t 1)"
  by (simp add: blocks_of_def init_blocklist)

section \<open>The block chain\<close>

lemma run_blocks_cons_fails:
  "run_blocks L (b # bs) X edge_index s = (Inl (NameError ''x''), s)"
  by (simp add: and_then_def block_forward_fails)

lemma run_blocks_is_instance:
  "run_blocks L blocks X edge_index = run_blocks_with (MSTGCNBlock_forward L) blocks X edge_index"
  by (induction blocks arbitrary: X) simp_all

lemma forward_is_instance:
  "MSTGCN_forward L self X edge_index
     = MSTGCN_forward_with (MSTGCNBlock_forward L) L self X edge_index"
  by (simp add: MSTGCN_forward_def MSTGCN_forward_with_def run_blocks_is_instance)

text \<open>
  The loop has no handler: the first call that fails ends it. By induction over the
  blocks, for every call.
\<close>

lemma run_blocks_first_failure:
  "first_failure call bs X edge_index s = Some (e, s') \<Longrightarrow>
   run_blocks_with call bs X edge_index s = (Inl e, s')"
proof (induction bs arbitrary: X s)
  case Nil
  then show ?case by simp
next
  case (Cons b bs)
  show ?case
  proof (cases "call b X edge_index s")
    case (Pair r s1)
    show ?thesis
    proof (cases r)
      case (Inl e1)
      with Pair Cons.prems show ?thesis by (simp add: and_then_def)
    next
      case (Inr X1)
      with Pair Cons.prems have "first_failure call bs X1 edge_index s1 = Some (e, s')"
        by simp
      then have "run_blocks_with call bs X1 edge_index s1 = (Inl e, s')"
        by (rule Cons.IH)
      with Pair Inr show ?thesis by (simp add: and_then_def)
    qed
  qed
qed

lemma forward_with_of_blocks:
  "py_getattr model ''_blocklist'' = Inr (ModuleListO blocks) \<Longrightarrow>
   run_blocks_with call blocks X edge_index s = (Inl e, s') \<Longrightarrow>
   MSTGCN_forward_with call L model X edge_index s = (Inl e, s')"
  by (simp add: MSTGCN_forward_with_def and_then_def lift_def py_iter_def)

lemma forward_of_blocks:
  "py_getattr model ''_blocklist'' = Inr (ModuleListO blocks) \<Longrightarrow>
   run_blocks L blocks X edge_index s = (Inl e, s') \<Longrightarrow>
   MSTGCN_forward L model X edge_index s = (Inl e, s')"
  by (simp add: MSTGCN_forward_def and_then_def lift_def py_iter_def)

lemma constructed_forward_fails:
  "MSTGCN_init nb i K c t st p li = Inr model \<Longrightarrow>
   MSTGCN_forward L model X edge_index s = (Inl (NameError ''x''), s)"
  by (rule forward_of_blocks [OF init_blocklist run_blocks_cons_fails])

section \<open>Time lengths of constructed models\<close>

lemma block_time:
  "block_time_length (MSTGCNBlock_init i K c t st) T = Inr ((T - 1) div st + 1)"
  by (simp add: block_time_length_def block_attrs conv_out_size_def)

lemma chain_replicate_stride1:
  "chain_time_length (replicate n (MSTGCNBlock_init i K c t 1)) T = Inr T"
  by (induction n) (simp_all add: block_time)

lemma init_chain_time:
  "MSTGCN_init nb i K c t st p li = Inr model \<Longrightarrow>
   chain_time_length (blocks_of model) T = Inr ((T - 1) div st + 1)"
  by (simp add: init_blocks_of block_time chain_replicate_stride1)

text \<open>
  For a positive stride, \<open>(l - 1) div s + 1\<close> is the quotient rounded up and
  \<open>l div s\<close> the quotient rounded down: they agree exactly on the multiples of \<open>s\<close>.
\<close>

lemma ceil_eq_floor_iff:
  fixes l s :: int
  assumes "0 < s"
  shows "(l - 1) div s + 1 = l div s \<longleftrightarrow> s dvd l"
proof -
  define q r where "q = l div s" and "r = l mod s"
  have l: "l = s * q + r" and r: "0 \<le> r" "r < s"
    using assms by (simp_all add: q_def r_def)
  show ?thesis
  proof (cases "r = 0")
    case True
    have "l - 1 = s * (q - 1) + (s - 1)"
      using l True by (simp add: algebra_simps)
    then have "(l - 1) div s = q - 1"
      using assms by (intro int_div_pos_eq [where r = "s - 1"]) simp_all
    moreover have "s dvd l"
      using True by (simp add: r_def dvd_eq_mod_eq_0)
    ultimately show ?thesis by (simp add: q_def)
  next
    case False
    have "l - 1 = s * q + (r - 1)"
      using l by simp
    then have "(l - 1) div s = q"
      using r False by (intro int_div_pos_eq [where r = "r - 1"]) simp_all
    moreover have "\<not> s dvd l"
      using False by (simp add: r_def dvd_eq_mod_eq_0)
    ultimately show ?thesis by (simp add: q_def)
  qed
qed

lemma init_final_in_channels:
  "MSTGCN_init nb i K c t st p li = Inr model \<Longrightarrow>
   final_conv_in_channels model = int_truediv li st"
  by (simp add: final_conv_in_channels_def init_final_conv int_truediv_def)

lemma init_final_kernel:
  "MSTGCN_init nb i K c t st p li = Inr model \<Longrightarrow>
   final_conv_kernel_size model = Inr (1, t)"
  by (simp add: final_conv_kernel_size_def init_final_conv)

section \<open>The claims\<close>

text \<open>
  Claim C1. For a valid configuration the forward pass is to return a tensor of shape
  \<open>(B, N, num_for_predict)\<close>. It returns no tensor. With one block, one input channel,
  \<open>K = 2\<close>, four filters of each kind, stride 1, two steps to predict and input length 6,
  on an input of shape \<open>(4, 3, 1, 6)\<close> and four edges, the model is constructed and the
  call raises \<^verbatim>\<open>NameError\<close> before the engine has run any operation.
\<close>

theorem forward_valid_configuration_raises:
  "\<exists>model. MSTGCN_init 1 1 2 4 4 1 2 6 = Inr model \<and>
     MSTGCN_forward shape_engine model (EngineO [4, 3, 1, 6]) (EngineO [2, 4]) 0
       = (Inl (NameError ''x''), 0)"
proof -
  obtain model :: "int list pyobj" where m: "MSTGCN_init 1 1 2 4 4 1 2 6 = Inr model"
    by (simp add: init_result)
  from m constructed_forward_fails [OF m, where L = shape_engine and s = 0]
  show ?thesis by blast
qed

text \<open>
  Claim C2. The end-to-end scenario (\<open>B = 2\<close>, \<open>N = 5\<close>, \<open>F_in = 2\<close>, \<open>T_in = 12\<close>,
  \<open>K = 3\<close>, eight filters of each kind, stride 2, two blocks, three steps to predict,
  input length 12, eight directed edges) is to succeed with a result of shape
  \<open>(2, 5, 3)\<close>. The model is constructed and the call raises \<^verbatim>\<open>NameError\<close>.
\<close>

theorem forward_end_to_end_scenario_raises:
  "\<exists>model. MSTGCN_init 2 2 3 8 8 2 3 12 = Inr model \<and>
     MSTGCN_forward shape_engine model (EngineO [2, 5, 2, 12]) (EngineO [2, 8]) 0
       = (Inl (NameError ''x''), 0)"
proof -
  obtain model :: "int list pyobj" where m: "MSTGCN_init 2 2 3 8 8 2 3 12 = Inr model"
    by (simp add: init_result)
  from m constructed_forward_fails [OF m, where L = shape_engine and s = 0]
  show ?thesis by blast
qed

text \<open>
  Claim C3. Every call of \<^verbatim>\<open>MSTGCNBlock.forward\<close> raises \<^verbatim>\<open>NameError\<close> for \<^verbatim>\<open>x\<close>, whatever
  the object, the input and the connectivity are and whatever the engine does, and it
  does so before any operation of the engine runs: the state comes back as it was given.
  The frame of the call binds \<^verbatim>\<open>X\<close>, not \<^verbatim>\<open>x\<close>. A block the constructor built has none of
  the attributes \<^verbatim>\<open>cheb_conv\<close>, \<^verbatim>\<open>nb_time_filter\<close>, \<^verbatim>\<open>time_conv\<close>, \<^verbatim>\<open>residual_conv\<close>,
  \<^verbatim>\<open>layer_norm\<close> the body reads; it has each of them under the name with a leading underscore.
  Hence \<^verbatim>\<open>MSTGCN.forward\<close> fails in the same way on every model the constructor built, for
  every \<^verbatim>\<open>nb_block\<close>, since the constructor always builds the first block.
\<close>

theorem block_forward_name_resolution_error:
  assumes "MSTGCN_init nb_block in_channels K nb_chev_filter nb_time_filter time_strides
             num_for_predict len_input = Inr model"
  shows "MSTGCNBlock_forward L self X edge_index s = (Inl (NameError ''x''), s)
       \<and> load_name [(''self'', self), (''X'', X), (''edge_index'', edge_index)] ''X'' = Inr X
       \<and> load_name [(''self'', self), (''X'', X), (''edge_index'', edge_index)] ''x''
           = Inl (NameError ''x'')
       \<and> py_getattr (MSTGCNBlock_init i k c t st) ''cheb_conv''
           = Inl (AttributeError ''cheb_conv'')
       \<and> py_getattr (MSTGCNBlock_init i k c t st) ''nb_time_filter''
           = Inl (AttributeError ''nb_time_filter'')
       \<and> py_getattr (MSTGCNBlock_init i k c t st) ''time_conv''
           = Inl (AttributeError ''time_conv'')
       \<and> py_getattr (MSTGCNBlock_init i k c t st) ''residual_conv''
           = Inl (AttributeError ''residual_conv'')
       \<and> py_getattr (MSTGCNBlock_init i k c t st) ''layer_norm''
           = Inl (AttributeError ''layer_norm'')
       \<and> py_getattr (MSTGCNBlock_init i k c t st) ''_cheb_conv'' = Inr (ChebConvO i c k)
       \<and> py_getattr (MSTGCNBlock_init i k c t st) ''_nb_time_filter'' = Inr (IntO t)
       \<and> py_getattr (MSTGCNBlock_init i k c t st) ''_time_conv''
           = Inr (Conv2dO c t (1, 3) (1, st) (0, 1))
       \<and> py_getattr (MSTGCNBlock_init i k c t st) ''_residual_conv''
           = Inr (Conv2dO i t (1, 1) (1, st) (0, 0))
       \<and> py_getattr (MSTGCNBlock_init i k c t st) ''_layer_norm'' = Inr (LayerNormO t)
       \<and> MSTGCN_forward L model X edge_index s = (Inl (NameError ''x''), s)"
  using constructed_forward_fails [OF assms]
  by (simp add: block_forward_fails load_x load_X block_attrs block_no_attrs)

text \<open>
  The claim at a model of two blocks, on the engine that counts its operations: none has
  run when the call fails.
\<close>

theorem block_forward_name_resolution_error_witness:
  "\<exists>model. MSTGCN_init 2 2 3 8 8 2 3 12 = Inr model
     \<and> MSTGCNBlock_forward shape_engine (MSTGCNBlock_init 2 3 8 8 2)
          (EngineO [2, 5, 2, 12]) (EngineO [2, 8]) 0 = (Inl (NameError ''x''), 0)
     \<and> py_getattr (MSTGCNBlock_init 2 3 8 8 2 :: int list pyobj) ''cheb_conv''
          = Inl (AttributeError ''cheb_conv'')
     \<and> py_getattr (MSTGCNBlock_init 2 3 8 8 2 :: int list pyobj) ''_cheb_conv''
          = Inr (ChebConvO 2 8 3)
     \<and> MSTGCN_forward shape_engine model (EngineO [2, 5, 2, 12]) (EngineO [2, 8]) 0
          = (Inl (NameError ''x''), 0)"
proof -
  obtain model :: "int list pyobj" where m: "MSTGCN_init 2 2 3 8 8 2 3 12 = Inr model"
    by (simp add: init_result)
  from m block_forward_name_resolution_error [OF m,
      where i = 2 and k = 3 and c = 8 and t = 8 and st = 2 and L = shape_engine
        and self = "MSTGCNBlock_init 2 3 8 8 2" and X = "EngineO [2, 5, 2, 12]"
        and edge_index = "EngineO [2, 8]" and s = 0]
  show ?thesis by blast
qed

text \<open>
  Claim C4. A block with stride \<open>s\<close> is to return a tensor of time length
  \<open>ceil(T_in / s)\<close>. The temporal convolution the constructor configures would emit
  that length (12, 6 and 4 for the strides 1, 2 and 3 at \<open>T_in = 12\<close>), but the forward pass
  of the block returns no tensor for any of the three strides: it raises \<^verbatim>\<open>NameError\<close>.
\<close>

theorem block_forward_stride_raises:
  "MSTGCNBlock_forward shape_engine (MSTGCNBlock_init 2 3 8 8 1)
      (EngineO [2, 5, 2, 12]) (EngineO [2, 8]) 0 = (Inl (NameError ''x''), 0)
   \<and> MSTGCNBlock_forward shape_engine (MSTGCNBlock_init 2 3 8 8 2)
      (EngineO [2, 5, 2, 12]) (EngineO [2, 8]) 0 = (Inl (NameError ''x''), 0)
   \<and> MSTGCNBlock_forward shape_engine (MSTGCNBlock_init 2 3 8 8 3)
      (EngineO [2, 5, 2, 12]) (EngineO [2, 8]) 0 = (Inl (NameError ''x''), 0)
   \<and> block_time_length (MSTGCNBlock_init 2 3 8 8 1 :: int list pyobj) 12 = Inr 12
   \<and> block_time_length (MSTGCNBlock_init 2 3 8 8 2 :: int list pyobj) 12 = Inr 6
   \<and> block_time_length (MSTGCNBlock_init 2 3 8 8 3 :: int list pyobj) 12 = Inr 4"
  by (simp add: block_forward_fails block_time)

text \<open>
  Claim C5. One edge list and the same edge list repeated \<open>T_in\<close> times are to give the
  same output. Neither call gives an output: line 53 fails before line 54 chooses
  between the two branches, so both calls raise \<^verbatim>\<open>NameError\<close> and neither branch runs.
\<close>

theorem forward_constant_and_repeated_edges_raise:
  "MSTGCNBlock_forward shape_engine (MSTGCNBlock_init 2 3 8 8 2)
      (EngineO [2, 5, 2, 12]) (EngineO [2, 8]) 0 = (Inl (NameError ''x''), 0)
   \<and> MSTGCNBlock_forward shape_engine (MSTGCNBlock_init 2 3 8 8 2)
      (EngineO [2, 5, 2, 12]) (ListO (replicate 12 (EngineO [2, 8]))) 0
        = (Inl (NameError ''x''), 0)"
  by (simp only: block_forward_fails)

text \<open>
  Claim C6, as amended. For an input length and a stride below \<open>2 ^ 53\<close> in absolute
  value (where \<^verbatim>\<open>int(len_input/time_strides)\<close> is the exact quotient truncated towards
  zero), the final convolution is declared with that truncated quotient as its number of
  input channels and with the kernel size \<open>(1, nb_time_filter)\<close>: kernel height 1,
  kernel width \<^verbatim>\<open>nb_time_filter\<close>. If moreover the stride and the input length are
  positive, the temporal convolutions of the block chain are configured to emit the
  quotient rounded up, and the declared depth equals that length exactly when the stride
  divides the input length.
\<close>

theorem final_conv_declared_configuration:
  assumes "MSTGCN_init nb_block in_channels K nb_chev_filter nb_time_filter time_strides
             num_for_predict len_input = Inr model"
      and "\<bar>len_input\<bar> < 2 ^ 53" and "\<bar>time_strides\<bar> < 2 ^ 53"
  shows "final_conv_in_channels model = int_truediv len_input time_strides
       \<and> final_conv_kernel_size model = Inr (1, nb_time_filter)
       \<and> (0 < time_strides \<and> 0 < len_input \<longrightarrow>
            final_conv_in_channels model = Inr (len_input div time_strides)
          \<and> chain_time_length (blocks_of model) len_input
              = Inr ((len_input - 1) div time_strides + 1)
          \<and> ((chain_time_length (blocks_of model) len_input = final_conv_in_channels model)
              = (time_strides dvd len_input)))"
proof (intro conjI impI)
  show "final_conv_in_channels model = int_truediv len_input time_strides"
    by (rule init_final_in_channels [OF assms(1)])
  show "final_conv_kernel_size model = Inr (1, nb_time_filter)"
    by (rule init_final_kernel [OF assms(1)])
next
  assume pos: "0 < time_strides \<and> 0 < len_input"
  then show depth: "final_conv_in_channels model = Inr (len_input div time_strides)"
    by (simp add: init_final_in_channels [OF assms(1)] int_truediv_def)
  show chain: "chain_time_length (blocks_of model) len_input
                 = Inr ((len_input - 1) div time_strides + 1)"
    by (rule init_chain_time [OF assms(1)])
  from pos have "0 < time_strides" by simp
  from ceil_eq_floor_iff [OF this, of len_input]
  show "(chain_time_length (blocks_of model) len_input = final_conv_in_channels model)
          = (time_strides dvd len_input)"
    by (simp add: depth chain)
qed

theorem final_conv_declared_configuration_witness:
  "\<exists>model :: int list pyobj.
     MSTGCN_init 2 2 3 8 8 2 3 12 = Inr model
     \<and> \<bar>12 :: int\<bar> < 2 ^ 53 \<and> \<bar>2 :: int\<bar> < 2 ^ 53 \<and> (0::int) < 2 \<and> (0::int) < 12
     \<and> final_conv_in_channels model = Inr 6
     \<and> final_conv_kernel_size model = Inr (1, 8)
     \<and> chain_time_length (blocks_of model) 12 = Inr 6"
proof -
  obtain model :: "int list pyobj" where m: "MSTGCN_init 2 2 3 8 8 2 3 12 = Inr model"
    by (simp add: init_result)
  have pos: "(0::int) < 2 \<and> (0::int) < 12" by simp
  have len: "\<bar>12 :: int\<bar> < 2 ^ 53" and stride: "\<bar>2 :: int\<bar> < 2 ^ 53" by simp_all
  from final_conv_declared_configuration [OF m len stride] pos
  have "final_conv_in_channels model = Inr (12 div 2)"
    and "final_conv_kernel_size model = Inr (1, 8)"
    and "chain_time_length (blocks_of model) 12 = Inr ((12 - 1) div 2 + 1)"
    by blast+
  with m show ?thesis by simp
qed

text \<open>
  Claim C6 as stated fails: with input length 12 and stride 5 the constructor declares
  depth 2 while the block chain is configured to emit time length 3, and with eight time
  filters the kernel height is 1, not 8.
\<close>

theorem final_conv_depth_counterexample:
  "\<exists>model :: int list pyobj. MSTGCN_init 2 2 3 8 8 5 3 12 = Inr model
     \<and> final_conv_in_channels model = Inr 2
     \<and> chain_time_length (blocks_of model) 12 = Inr 3
     \<and> final_conv_in_channels model \<noteq> chain_time_length (blocks_of model) 12
     \<and> final_conv_kernel_size model = Inr (1, 8)
     \<and> \<not> (\<exists>width. final_conv_kernel_size model = Inr (8, width))"
proof -
  obtain model :: "int list pyobj" where m: "MSTGCN_init 2 2 3 8 8 5 3 12 = Inr model"
    by (simp add: init_result)
  have "final_conv_in_channels model = Inr 2"
    by (simp add: init_final_in_channels [OF m] int_truediv_def)
  moreover have "chain_time_length (blocks_of model) 12 = Inr 3"
    by (simp add: init_chain_time [OF m])
  moreover have "final_conv_kernel_size model = Inr (1, 8)"
    by (rule init_final_kernel [OF m])
  ultimately show ?thesis using m by auto
qed

text \<open>
  Claim C7. A model constructed with \<open>nb_block \<ge> 1\<close> holds exactly \<open>nb_block\<close>
  blocks. The first is built from \<open>in_channels\<close> and the configured stride: its graph
  convolution and its residual convolution read \<open>in_channels\<close> channels, and its temporal
  and residual convolutions write \<open>nb_time_filter\<close> channels with that stride along time.
  Every later block reads and writes \<open>nb_time_filter\<close> channels with stride 1, and its
  temporal convolution keeps every time length.
\<close>

theorem blocklist_structure:
  assumes "1 \<le> nb_block"
      and "MSTGCN_init nb_block in_channels K nb_chev_filter nb_time_filter time_strides
             num_for_predict len_input = Inr model"
  shows "py_getattr model ''_blocklist'' = Inr (ModuleListO (blocks_of model))
       \<and> length (blocks_of model) = nat nb_block
       \<and> blocks_of model ! 0
           = MSTGCNBlock_init in_channels K nb_chev_filter nb_time_filter time_strides
       \<and> py_getattr (blocks_of model ! 0) ''_cheb_conv''
           = Inr (ChebConvO in_channels nb_chev_filter K)
       \<and> py_getattr (blocks_of model ! 0) ''_time_conv''
           = Inr (Conv2dO nb_chev_filter nb_time_filter (1, 3) (1, time_strides) (0, 1))
       \<and> py_getattr (blocks_of model ! 0) ''_residual_conv''
           = Inr (Conv2dO in_channels nb_time_filter (1, 1) (1, time_strides) (0, 0))
       \<and> (\<forall>j. 0 < j \<and> j < nat nb_block \<longrightarrow>
             blocks_of model ! j
               = MSTGCNBlock_init nb_time_filter K nb_chev_filter nb_time_filter 1
           \<and> py_getattr (blocks_of model ! j) ''_cheb_conv''
               = Inr (ChebConvO nb_time_filter nb_chev_filter K)
           \<and> py_getattr (blocks_of model ! j) ''_time_conv''
               = Inr (Conv2dO nb_chev_filter nb_time_filter (1, 3) (1, 1) (0, 1))
           \<and> py_getattr (blocks_of model ! j) ''_residual_conv''
               = Inr (Conv2dO nb_time_filter nb_time_filter (1, 1) (1, 1) (0, 0))
           \<and> (\<forall>T. block_time_length (blocks_of model ! j) T = Inr T))"
proof -
  note bs = init_blocks_of [OF assms(2)]
  have len: "length (blocks_of model) = nat nb_block"
    using assms(1) by (simp add: bs)
  have later: "blocks_of model ! j
                 = MSTGCNBlock_init nb_time_filter K nb_chev_filter nb_time_filter 1"
    if "0 < j" "j < nat nb_block" for j
    using that by (simp add: bs nth_Cons')
  show ?thesis
    using len
    by (simp add: later block_attrs block_time)
       (simp add: bs init_blocklist [OF assms(2)] block_attrs)
qed

theorem blocklist_structure_witness:
  "\<exists>model :: int list pyobj. (1::int) \<le> 3 \<and> MSTGCN_init 3 2 3 8 8 2 3 12 = Inr model
     \<and> length (blocks_of model) = 3
     \<and> py_getattr (blocks_of model ! 0) ''_residual_conv''
         = Inr (Conv2dO 2 8 (1, 1) (1, 2) (0, 0))
     \<and> py_getattr (blocks_of model ! 2) ''_residual_conv''
         = Inr (Conv2dO 8 8 (1, 1) (1, 1) (0, 0))
     \<and> block_time_length (blocks_of model ! 2) 6 = Inr 6"
proof -
  obtain model :: "int list pyobj" where m: "MSTGCN_init 3 2 3 8 8 2 3 12 = Inr model"
    by (simp add: init_result)
  have one: "(1::int) \<le> 3" by simp
  have two: "0 < (2::nat) \<and> 2 < nat 3" by simp
  from m two blocklist_structure [OF one m] show ?thesis by auto
qed

text \<open>
  Claim C8. The output of the graph convolution after the rectifier is to have no
  negative entry. That tensor is never computed: for one edge list and for a list of
  edge lists alike, the call of the block raises \<^verbatim>\<open>NameError\<close> before the engine has run
  any operation, the rectifier included.
\<close>

theorem spatial_filter_never_computed:
  "MSTGCNBlock_forward shape_engine (MSTGCNBlock_init 3 2 4 4 1)
      (EngineO [1, 4, 3, 5]) (EngineO [2, 6]) 0 = (Inl (NameError ''x''), 0)
   \<and> MSTGCNBlock_forward shape_engine (MSTGCNBlock_init 3 2 4 4 1)
      (EngineO [1, 4, 3, 5]) (ListO (replicate 5 (EngineO [2, 6]))) 0
        = (Inl (NameError ''x''), 0)"
  by (simp only: block_forward_fails)

text \<open>
  Claim C9. Lines 132-135 have no handler between a block and the caller. Whatever the
  call of a block does: when the call of some block fails, on the output of the blocks
  before it, the forward pass of the model ends with that same error and in the state
  that failure left, so nothing runs after it (no retry, no later block, no fusion
  convolution) and no value is returned. \<^verbatim>\<open>MSTGCN.forward\<close> is the instance of this loop
  whose call is \<^verbatim>\<open>MSTGCNBlock.forward\<close>.
\<close>

theorem first_failure_propagates:
  assumes "py_getattr model ''_blocklist'' = Inr (ModuleListO blocks)"
      and "first_failure call blocks X edge_index s = Some (e, s')"
  shows "MSTGCN_forward_with call L model X edge_index s = (Inl e, s')
       \<and> MSTGCN_forward L model X edge_index
           = MSTGCN_forward_with (MSTGCNBlock_forward L) L model X edge_index"
  using forward_with_of_blocks [OF assms(1) run_blocks_first_failure [OF assms(2)]]
  by (simp add: forward_is_instance)

text \<open>
  The claim where a later block fails on a shape: a model of two blocks with four
  Chebyshev filters and eight time filters, each block call running the block's temporal
  convolution. The first block turns the input of shape \<open>(2, 4, 5, 12)\<close> into
  \<open>(2, 8, 5, 6)\<close>; the convolution of the second block expects four channels and the
  engine refuses the eight it gets. That error, in the state after the two operations, is
  what the forward pass ends with.
\<close>

theorem first_failure_propagates_witness:
  "\<exists>model blocks. MSTGCN_init 2 2 3 4 8 2 3 12 = Inr model
     \<and> py_getattr model ''_blocklist'' = Inr (ModuleListO blocks)
     \<and> first_failure (temporal_conv_only shape_engine) blocks
          (EngineO [2, 4, 5, 12]) (EngineO [2, 8]) 0
          = Some (EngineError ''Conv2d: the input does not fit the layer'', 2)
     \<and> MSTGCN_forward_with (temporal_conv_only shape_engine) shape_engine model
          (EngineO [2, 4, 5, 12]) (EngineO [2, 8]) 0
          = (Inl (EngineError ''Conv2d: the input does not fit the layer''), 2)"
proof -
  obtain model :: "int list pyobj" where m: "MSTGCN_init 2 2 3 4 8 2 3 12 = Inr model"
    by (simp add: init_result)
  note bl = init_blocklist [OF m]
  have first: "temporal_conv_only shape_engine (MSTGCNBlock_init 2 3 4 8 2)
                 (EngineO [2, 4, 5, 12]) (EngineO [2, 8]) 0 = (Inr (EngineO [2, 8, 5, 6]), 1)"
    by (simp add: temporal_conv_only_def block_attrs and_then_def lift_def call_layer_def
        shape_engine_def on_shape_def counted_def conv2d_shape_def conv_out_size_def)
  have second: "temporal_conv_only shape_engine (MSTGCNBlock_init 8 3 4 8 1)
                  (EngineO [2, 8, 5, 6]) (EngineO [2, 8]) (Suc 0)
                  = (Inl (EngineError ''Conv2d: the input does not fit the layer''), 2)"
    by (simp add: temporal_conv_only_def block_attrs and_then_def lift_def call_layer_def
        shape_engine_def on_shape_def counted_def conv2d_shape_def)
  have ff: "first_failure (temporal_conv_only shape_engine)
              (MSTGCNBlock_init 2 3 4 8 2 # replicate (nat (2 - 1)) (MSTGCNBlock_init 8 3 4 8 1))
              (EngineO [2, 4, 5, 12]) (EngineO [2, 8]) 0
              = Some (EngineError ''Conv2d: the input does not fit the layer'', 2)"
    by (simp add: first second)
  from m bl ff first_failure_propagates [OF bl ff, where L = shape_engine]
  show ?thesis by blast
qed

text \<open>
  Claim C10. Two calls with the same input, connectivity and parameters are to return
  identical outputs. Neither call returns an output: on a model of three blocks, the
  first call raises \<^verbatim>\<open>NameError\<close>, and so does the second, run in the state the first
  call left.
\<close>

theorem forward_twice_raises:
  "\<exists>model. MSTGCN_init 3 1 2 4 4 1 1 4 = Inr model
     \<and> MSTGCN_forward shape_engine model (EngineO [1, 2, 1, 4]) (EngineO [2, 2]) 0
         = (Inl (NameError ''x''), 0)
     \<and> MSTGCN_forward shape_engine model (EngineO [1, 2, 1, 4]) (EngineO [2, 2])
          (snd (MSTGCN_forward shape_engine model (EngineO [1, 2, 1, 4]) (EngineO [2, 2]) 0))
         = (Inl (NameError ''x''), 0)"
proof -
  obtain model :: "int list pyobj" where m: "MSTGCN_init 3 1 2 4 4 1 1 4 = Inr model"
    by (simp add: init_result)
  have "MSTGCN_forward shape_engine model (EngineO [1, 2, 1, 4]) (EngineO [2, 2]) 0
          = (Inl (NameError ''x''), 0)"
    by (rule constructed_forward_fails [OF m])
  with m show ?thesis by auto
qed

end
